theory Spec2Isabelle
  imports Complex_Main
begin

section \<open>Python string operations used by the voice-chat scripts\<close>

text \<open>
  The scripts under \<^verbatim>\<open>examples/\<close> work on Python \<^verbatim>\<open>str\<close> values. They are modelled
  as \<^typ>\<open>string\<close>; the transcripts and keyword tables are ASCII, and \<^verbatim>\<open>str.lower\<close> is
  modelled on the ASCII letters (every other character is left as it is).
\<close>

definition lower_char :: "char \<Rightarrow> char" where
  "lower_char c =
     (case map_of (zip ''ABCDEFGHIJKLMNOPQRSTUVWXYZ'' ''abcdefghijklmnopqrstuvwxyz'') c of
        None \<Rightarrow> c | Some d \<Rightarrow> d)"

definition py_lower :: "string \<Rightarrow> string" where
  "py_lower s = map lower_char s"

definition startswith :: "string \<Rightarrow> string \<Rightarrow> bool" where
  "startswith s p = (take (length p) s = p)"

text \<open>\<^verbatim>\<open>needle in hay\<close> on strings: \<open>needle\<close> occurs as a contiguous substring.\<close>

fun py_in :: "string \<Rightarrow> string \<Rightarrow> bool" where
  "py_in needle [] = (needle = [])"
| "py_in needle (c # cs) = (startswith (c # cs) needle \<or> py_in needle cs)"

text \<open>\<^verbatim>\<open>any(word in text for word in words)\<close>.\<close>

primrec any_in :: "string list \<Rightarrow> string \<Rightarrow> bool" where
  "any_in [] text = False"
| "any_in (w # ws) text = (py_in w text \<or> any_in ws text)"

text \<open>The ASCII characters for which \<^verbatim>\<open>str.isspace\<close> holds.\<close>

definition is_space :: "char \<Rightarrow> bool" where
  "is_space c = (c = CHR '' '' \<or> c = CHR 0x09 \<or> c = CHR 0x0A \<or> c = CHR 0x0B
                 \<or> c = CHR 0x0C \<or> c = CHR 0x0D \<or> c = CHR 0x1C \<or> c = CHR 0x1D
                 \<or> c = CHR 0x1E \<or> c = CHR 0x1F)"

text \<open>\<^verbatim>\<open>str.split()\<close> without argument: maximal runs of non-whitespace characters.\<close>

fun split_aux :: "string \<Rightarrow> string \<Rightarrow> string list" where
  "split_aux cur [] = (if cur = [] then [] else [cur])"
| "split_aux cur (c # cs) =
     (if is_space c then (if cur = [] then split_aux [] cs else cur # split_aux [] cs)
      else split_aux (cur @ [c]) cs)"

definition py_split :: "string \<Rightarrow> string list" where
  "py_split s = split_aux [] s"

text \<open>\<^verbatim>\<open>str.strip(chars)\<close>: drop leading and trailing characters that occur in \<open>chars\<close>.\<close>

definition py_strip :: "string \<Rightarrow> string \<Rightarrow> string" where
  "py_strip chars s =
     rev (dropWhile (\<lambda>c. c \<in> set chars) (rev (dropWhile (\<lambda>c. c \<in> set chars) s)))"

text \<open>Truthiness of an optional string: \<^verbatim>\<open>None\<close> and \<^verbatim>\<open>''\<close> are false.\<close>

fun truthy :: "string option \<Rightarrow> bool" where
  "truthy None = False"
| "truthy (Some s) = (s \<noteq> [])"

section \<open>\<^verbatim>\<open>push_to_talk_chat.py\<close>: the response dispatcher\<close>

text \<open>
  The fields of \<^verbatim>\<open>PushToTalkChat\<close> that \<^verbatim>\<open>generate_response\<close> reads and writes.
  \<^verbatim>\<open>response_count\<close> starts at 0 and is only ever incremented, so it is a natural number.
\<close>

record profile =
  conversation_history :: "(string \<times> string) list"
  user_name :: "string option"
  response_count :: nat

definition fresh_profile :: profile where
  "fresh_profile = \<lparr>conversation_history = [], user_name = None, response_count = 0\<rparr>"

text \<open>
  The name-extraction loop
  \<^verbatim>\<open>for i, word in enumerate(words):
      if word.lower() in ['name', 'is', 'am', "i'm"] and i + 1 < len(words):
          self.user_name = words[i + 1].strip('.,!?'); break\<close>
  returns the assignment it makes, if any. The last word never matches, since
  \<^verbatim>\<open>i + 1 < len(words)\<close> fails there.
\<close>

definition cue_words :: "string list" where
  "cue_words = [''name'', ''is'', ''am'', ''i'' @ [CHR 0x27] @ ''m'']"

fun extract_name :: "string list \<Rightarrow> string option" where
  "extract_name [] = None"
| "extract_name [w] = None"
| "extract_name (w # w' # ws) =
     (if py_lower w \<in> set cue_words then Some (py_strip ''.,!?'' w')
      else extract_name (w' # ws))"

definition intro_cues :: "string list" where
  "intro_cues = [''my name is'', ''i am'', ''i'' @ [CHR 0x27] @ ''m'']"

text \<open>
  The block \<^verbatim>\<open>if not self.user_name and any(word in user_input_lower for word in [...])\<close>:
  the new value of \<^verbatim>\<open>user_name\<close>.
\<close>

definition update_name :: "string option \<Rightarrow> string \<Rightarrow> string option" where
  "update_name nm user_input =
     (if \<not> truthy nm \<and> any_in intro_cues (py_lower user_input)
      then (case extract_name (py_split user_input) of None \<Rightarrow> nm | Some n \<Rightarrow> Some n)
      else nm)"

definition default_responses :: "string list" where
  "default_responses =
    [''That'' @ [CHR 0x27] @ ''s really interesting! Tell me more about that.'',
     ''I see what you mean. Can you elaborate on that?'',
     ''That sounds fascinating! What else can you tell me?'',
     ''Thanks for sharing that. What'' @ [CHR 0x27] @ ''s your take on it?'',
     ''I appreciate you telling me that. How do you feel about it?'',
     ''That'' @ [CHR 0x27] @ ''s a good point. What made you think of that?'',
     ''I'' @ [CHR 0x27] @ ''m listening! Please continue.'',
     ''That'' @ [CHR 0x27] @ ''s something worth discussing. Tell me more.'',
     ''I find that interesting. What'' @ [CHR 0x27] @ ''s your perspective?'',
     ''Thanks for bringing that up. It'' @ [CHR 0x27] @ ''s definitely worth talking about.'']"

text \<open>
  The \<^verbatim>\<open>if\<close>/\<^verbatim>\<open>elif\<close> chain of \<^verbatim>\<open>generate_response\<close>, in the source's order. \<open>clock\<close> is
  what \<^verbatim>\<open>time.strftime("%I:%M %p")\<close> returns when the time branch runs; \<open>nm\<close> and \<open>cnt\<close> are
  \<^verbatim>\<open>self.user_name\<close> and \<^verbatim>\<open>self.response_count\<close> after their updates.
\<close>

definition select_reply :: "string \<Rightarrow> string option \<Rightarrow> nat \<Rightarrow> string \<Rightarrow> string" where
  "select_reply clock nm cnt low =
     (if any_in [''hello'', ''hi'', ''hey'', ''good morning''] low then
        (if truthy nm then ''Hey '' @ the nm @ ''! How'' @ [CHR 0x27] @ ''s it going today?''
         else ''Hi there! Nice to meet you. What'' @ [CHR 0x27] @ ''s your name?'')
      else if any_in [''how are you'', ''how'' @ [CHR 0x27] @ ''s it going''] low then
        ''I'' @ [CHR 0x27] @ ''m doing great! No more audio feedback issues with push-to-talk. How about you?''
      else if any_in [''work'', ''job'', ''career''] low then
        ''Work sounds interesting! What do you do for a living?''
      else if any_in [''family'', ''parents'', ''kids''] low then
        ''Family is so important! Tell me about yours if you'' @ [CHR 0x27] @ ''d like.''
      else if any_in [''hobby'', ''sport'', ''music'', ''gaming''] low then
        ''That sounds fun! What kind of hobbies do you enjoy?''
      else if any_in [''food'', ''eat'', ''restaurant''] low then
        ''Food is great! What'' @ [CHR 0x27] @ ''s your favorite type of cuisine?''
      else if any_in [''time'', ''clock''] low then
        ''It'' @ [CHR 0x27] @ ''s '' @ clock @ ''. How'' @ [CHR 0x27] @ ''s your day going?''
      else if any_in [''thank'', ''thanks''] low then
        ''You'' @ [CHR 0x27] @ ''re welcome! I'' @ [CHR 0x27] @ ''m happy to help. What else would you like to talk about?''
      else if any_in [''goodbye'', ''bye'', ''quit'', ''exit''] low then
        (if truthy nm then ''Goodbye '' @ the nm @ ''! It was great chatting without audio feedback!''
         else ''Goodbye! Thanks for the conversation!'')
      else default_responses ! (cnt mod length default_responses))"

text \<open>
  \<^verbatim>\<open>generate_response(self, user_input)\<close>: increments the counter, appends the user turn
  to the history, tries the name extraction, and returns the reply with the new state.
\<close>

definition generate_response :: "string \<Rightarrow> string \<Rightarrow> profile \<Rightarrow> string \<times> profile" where
  "generate_response clock user_input p =
     (let low = py_lower user_input;
          cnt = response_count p + 1;
          hist = conversation_history p @ [(''user'', user_input)];
          nm = update_name (user_name p) user_input
      in (select_reply clock nm cnt low,
          \<lparr>conversation_history = hist, user_name = nm, response_count = cnt\<rparr>))"

text \<open>
  Successive calls of \<^verbatim>\<open>generate_response\<close>, as the conversation loop makes them: each
  element pairs the clock reading available to the call with the utterance.
\<close>

fun respond_all :: "(string \<times> string) list \<Rightarrow> profile \<Rightarrow> string list \<times> profile" where
  "respond_all [] p = ([], p)"
| "respond_all ((clock, u) # xs) p =
     (case generate_response clock u p of
        (r, p') \<Rightarrow> (case respond_all xs p' of (rs, p'') \<Rightarrow> (r # rs, p'')))"

text \<open>The utterances for which the time branch is the first one to match.\<close>

definition time_rule_first :: "string \<Rightarrow> bool" where
  "time_rule_first low =
     (\<not> any_in [''hello'', ''hi'', ''hey'', ''good morning''] low
      \<and> \<not> any_in [''how are you'', ''how'' @ [CHR 0x27] @ ''s it going''] low
      \<and> \<not> any_in [''work'', ''job'', ''career''] low
      \<and> \<not> any_in [''family'', ''parents'', ''kids''] low
      \<and> \<not> any_in [''hobby'', ''sport'', ''music'', ''gaming''] low
      \<and> \<not> any_in [''food'', ''eat'', ''restaurant''] low
      \<and> any_in [''time'', ''clock''] low)"

section \<open>\<^verbatim>\<open>smart_edge_voice_chat.py\<close>: the state updates of the dispatcher\<close>

record smart_profile =
  s_conversation_history :: "(string \<times> string) list"
  s_user_name :: "string option"
  s_topics_discussed :: "string set"
  s_response_count :: nat

text \<open>The \<^verbatim>\<open>topics\<close> dictionary of \<^verbatim>\<open>extract_keywords\<close>, in insertion order.\<close>

definition topics :: "(string \<times> string list) list" where
  "topics =
    [(''work'', [''work'', ''job'', ''career'', ''office'', ''business'', ''company'']),
     (''family'', [''family'', ''parents'', ''mother'', ''father'', ''sister'', ''brother'',
                   ''children'', ''kids'']),
     (''hobbies'', [''hobby'', ''hobbies'', ''sport'', ''music'', ''art'', ''reading'', ''gaming'',
                    ''travel'']),
     (''food'', [''food'', ''eat'', ''restaurant'', ''cooking'', ''recipe'', ''meal'', ''hungry'']),
     (''weather'', [''weather'', ''rain'', ''sunny'', ''cloudy'', ''hot'', ''cold'', ''temperature'']),
     (''technology'', [''computer'', ''phone'', ''internet'', ''ai'', ''technology'', ''software'',
                       ''app'']),
     (''emotions'', [''happy'', ''sad'', ''angry'', ''excited'', ''tired'', ''worried'', ''nervous'',
                     ''calm'']),
     (''time'', [''time'', ''clock'', ''hour'', ''minute'', ''today'', ''tomorrow'', ''yesterday'',
                 ''weekend'']),
     (''location'', [''home'', ''work'', ''school'', ''store'', ''park'', ''city'', ''country'',
                     ''travel''])]"

definition extract_keywords :: "string \<Rightarrow> string list" where
  "extract_keywords text = map fst (filter (\<lambda>(topic, ws). any_in ws (py_lower text)) topics)"

text \<open>
  The statements of \<^verbatim>\<open>generate_smart_response\<close> that write to \<^verbatim>\<open>self\<close> (lines 188 to 204);
  the rest of the function only reads the state and returns a reply.
\<close>

definition smart_update :: "string \<Rightarrow> smart_profile \<Rightarrow> smart_profile" where
  "smart_update user_input q =
     \<lparr>s_conversation_history = s_conversation_history q @ [(''user'', user_input)],
      s_user_name = update_name (s_user_name q) user_input,
      s_topics_discussed = s_topics_discussed q \<union> set (extract_keywords user_input),
      s_response_count = s_response_count q + 1\<rparr>"

section \<open>The synthesis step\<close>

text \<open>The exceptions that the synthesis and capture steps meet.\<close>

datatype error = SynthesisError | ValueError | WriteError | PlayerNotFound | RemoveError

text \<open>
  What the script can observe of the outside: the files that exist and the lines printed so
  far. Of the source's messages the ones that mark a step are kept, without their emoji
  prefixes and without the text of the exception they quote.
\<close>

record world =
  files :: "string list"
  stdout :: "string list"

definition print :: "string \<Rightarrow> world \<Rightarrow> world" where
  "print msg w = w\<lparr>stdout := stdout w @ [msg]\<rparr>"

text \<open>
  A waveform is a sequence of samples, taken as real numbers. \<^verbatim>\<open>np.max\<close> raises
  \<^verbatim>\<open>ValueError\<close> on an empty array.
\<close>

fun np_max :: "real list \<Rightarrow> error + real" where
  "np_max [] = Inl ValueError"
| "np_max (x # xs) = Inr (fold max xs x)"

text \<open>
  \<^verbatim>\<open>if np.max(np.abs(wav)) > 0: wav = wav / np.max(np.abs(wav)) * target\<close>
\<close>

definition normalize_peak :: "real \<Rightarrow> real list \<Rightarrow> error + real list" where
  "normalize_peak target wav =
     (case np_max (map abs wav) of
        Inl e \<Rightarrow> Inl e
      | Inr m \<Rightarrow> if m > 0 then Inr (map (\<lambda>x. x / m * target) wav) else Inr wav)"

text \<open>The target is 0.8 in \<^verbatim>\<open>push_to_talk_chat.py\<close> and 0.7 in \<^verbatim>\<open>ultra_fast_voice_chat.py\<close>.\<close>

definition pt_normalize :: "real list \<Rightarrow> error + real list" where
  "pt_normalize wav = normalize_peak (8 / 10) wav"

definition uf_normalize :: "real list \<Rightarrow> error + real list" where
  "uf_normalize wav = normalize_peak (7 / 10) wav"

text \<open>The peak absolute amplitude of a non-empty waveform.\<close>

definition peak :: "real list \<Rightarrow> real" where
  "peak wav = fold max (map abs (tl wav)) (abs (hd wav))"

text \<open>How the external player behaves: it cannot be started, or it exits with a status.\<close>

datatype play_outcome = PlayRaises | PlayExit int

text \<open>
  Everything outside the script that one call of \<^verbatim>\<open>synthesize_response\<close> depends on:
  the result of \<^verbatim>\<open>tts.infer\<close>, the string \<^verbatim>\<open>str(uuid.uuid4())\<close>, the working directory,
  whether \<^verbatim>\<open>sf.write\<close> and \<^verbatim>\<open>os.remove\<close> succeed, and the player.
\<close>

record synth_env =
  infer_result :: "error + real list"
  uuid4 :: string
  cwd :: string
  write_ok :: bool
  play :: play_outcome
  remove_ok :: bool

text \<open>\<^verbatim>\<open>os.path.abspath(name)\<close> for a plain file name.\<close>

definition abspath :: "string \<Rightarrow> string \<Rightarrow> string" where
  "abspath dir name = (if dir = ''/'' then ''/'' @ name else dir @ ''/'' @ name)"

text \<open>\<^verbatim>\<open>os.path.abspath(f"temp_response_{unique_id}.wav")\<close> with \<^verbatim>\<open>unique_id = str(uuid.uuid4())[:8]\<close>.\<close>

definition pt_output_path :: "synth_env \<Rightarrow> string" where
  "pt_output_path env = abspath (cwd env) (''temp_response_'' @ take 8 (uuid4 env) @ ''.wav'')"

text \<open>\<^verbatim>\<open>os.path.abspath("temp_response.wav")\<close> of \<^verbatim>\<open>voice_chat.py\<close>.\<close>

definition vc_output_path :: "synth_env \<Rightarrow> string" where
  "vc_output_path env = abspath (cwd env) ''temp_response.wav''"

definition error_name :: "error \<Rightarrow> string" where
  "error_name e = (case e of SynthesisError \<Rightarrow> ''SynthesisError'' | ValueError \<Rightarrow> ''ValueError''
     | WriteError \<Rightarrow> ''WriteError'' | PlayerNotFound \<Rightarrow> ''PlayerNotFound''
     | RemoveError \<Rightarrow> ''RemoveError'')"

text \<open>
  The statements from \<^verbatim>\<open>sf.write\<close> to \<^verbatim>\<open>os.remove\<close>, shared by the scripts: write the file,
  run the player, report a nonzero exit status, remove the file if it exists. An exception
  leaves the sequence at the statement that raised it.
\<close>

definition write_play_remove :: "synth_env \<Rightarrow> string \<Rightarrow> world \<Rightarrow> error option \<times> world" where
  "write_play_remove env path w =
     (if \<not> write_ok env then (Some WriteError, w)
      else let w1 = w\<lparr>files := path # removeAll path (files w)\<rparr> in
        (case play env of
           PlayRaises \<Rightarrow> (Some PlayerNotFound, w1)
         | PlayExit rc \<Rightarrow>
             let w2 = (if rc \<noteq> 0 then print ''Audio playback error'' w1 else w1) in
             if path \<in> set (files w2)
             then (if remove_ok env then (None, w2\<lparr>files := removeAll path (files w2)\<rparr>)
                   else (Some RemoveError, w2))
             else (None, w2)))"

text \<open>
  The handler \<^verbatim>\<open>except Exception as e: print(f"Error generating speech: {e}")\<close> that closes
  \<^verbatim>\<open>synthesize_response\<close>: the call returns normally whatever was raised.
\<close>

definition handle_speech_error :: "error option \<times> world \<Rightarrow> world" where
  "handle_speech_error r =
     (case r of (None, w) \<Rightarrow> w
      | (Some e, w) \<Rightarrow> print (''Error generating speech: '' @ error_name e) w)"

text \<open>\<^verbatim>\<open>PushToTalkChat.synthesize_response\<close>.\<close>

definition pt_synthesize_response :: "synth_env \<Rightarrow> string \<Rightarrow> world \<Rightarrow> world" where
  "pt_synthesize_response env response_text w =
     (let w1 = print ''Generating speech...'' (print (''AI: '' @ response_text) w) in
      handle_speech_error
        (case infer_result env of
           Inl e \<Rightarrow> (Some e, w1)
         | Inr wav \<Rightarrow>
            (case pt_normalize wav of
               Inl e \<Rightarrow> (Some e, w1)
             | Inr wav' \<Rightarrow> write_play_remove env (pt_output_path env) w1)))"

text \<open>\<^verbatim>\<open>VoiceChat.synthesize_response\<close>: no normalisation, and a fixed file name.\<close>

definition vc_synthesize_response :: "synth_env \<Rightarrow> string \<Rightarrow> world \<Rightarrow> world" where
  "vc_synthesize_response env response_text w =
     (let w1 = print ''Generating speech...'' (print (''AI: '' @ response_text) w) in
      handle_speech_error
        (case infer_result env of
           Inl e \<Rightarrow> (Some e, w1)
         | Inr wav \<Rightarrow> write_play_remove env (vc_output_path env) w1))"

text \<open>The number of calls of the synthesis step so far: each call first prints its text.\<close>

definition synth_calls :: "world \<Rightarrow> nat" where
  "synth_calls w = length (filter (\<lambda>l. startswith l ''AI: '') (stdout w))"

section \<open>\<^verbatim>\<open>push_to_talk_chat.py\<close>: capture and conversation loop\<close>

text \<open>A recorded chunk, \<^verbatim>\<open>sr.AudioData\<close>: raw bytes with sample rate and width.\<close>

record audio_data =
  raw_data :: "nat list"
  sample_rate :: nat
  sample_width :: nat

text \<open>
  What one call of \<^verbatim>\<open>listen_with_push_to_talk\<close> meets: whether \<^verbatim>\<open>keyboard.wait\<close> raises,
  the contents of \<^verbatim>\<open>self.audio_data\<close> when the recording thread has been joined (the chunks
  the worker appended while the key was held), and the transcription function
  (\<^verbatim>\<open>process_with_whisper\<close> or \<^verbatim>\<open>process_with_google\<close>, which return the text or \<^verbatim>\<open>None\<close>).
\<close>

record capture_env =
  wait_raises :: bool
  chunks :: "audio_data list"
  process :: "audio_data \<Rightarrow> string option"

definition listen_with_push_to_talk :: "capture_env \<Rightarrow> world \<Rightarrow> string option \<times> world" where
  "listen_with_push_to_talk cap w =
     (let w1 = print ''Hold SPACE to talk, release to stop...'' w in
      if wait_raises cap then (None, print ''Push-to-talk error'' w1)
      else (case chunks cap of
              [] \<Rightarrow> (None, print ''No audio recorded'' w1)
            | c # cs \<Rightarrow>
                let w2 = print ''Processing recorded speech...'' w1;
                    combined_audio = \<lparr>raw_data = concat (map raw_data (c # cs)),
                                      sample_rate = sample_rate c,
                                      sample_width = sample_width c\<rparr>
                in (process cap combined_audio, w2)))"

text \<open>One iteration of a loop: the capture, the clock and the synthesis environment.\<close>

record pt_turn =
  capture :: capture_env
  clock :: string
  synth :: synth_env

definition pt_exit_words :: "string list" where
  "pt_exit_words = [''goodbye'', ''quit'', ''exit'', ''stop'', ''bye'']"

text \<open>
  \<^verbatim>\<open>PushToTalkChat.run_conversation\<close>, the \<^verbatim>\<open>while True\<close> loop run on the turns that the
  outside supplies. The result says whether the loop has left through \<^verbatim>\<open>break\<close>, and gives
  the turns that were not started. When the turns run out the loop has not stopped: it is
  waiting in the next capture.
\<close>

fun pt_run_conversation ::
  "pt_turn list \<Rightarrow> profile \<times> world \<Rightarrow> bool \<times> pt_turn list \<times> profile \<times> world" where
  "pt_run_conversation [] (p, w) = (False, [], p, w)"
| "pt_run_conversation (t # ts) (p, w) =
     (case listen_with_push_to_talk (capture t) w of
        (None, w1) \<Rightarrow> pt_run_conversation ts (p, w1)
      | (Some user_input, w1) \<Rightarrow>
          if any_in pt_exit_words (py_lower user_input)
          then (case generate_response (clock t) user_input p of
                  (response, p') \<Rightarrow>
                    (True, ts, p', pt_synthesize_response (synth t) response w1))
          else (case generate_response (clock t) user_input p of
                  (response, p') \<Rightarrow>
                    pt_run_conversation ts (p', pt_synthesize_response (synth t) response w1)))"

section \<open>\<^verbatim>\<open>voice_chat.py\<close>: capture, dispatcher and conversation loop\<close>

text \<open>
  What \<^verbatim>\<open>listen_for_speech\<close> meets: one of the three exceptions it catches
  (\<^verbatim>\<open>sr.WaitTimeoutError\<close>, \<^verbatim>\<open>sr.UnknownValueError\<close>, \<^verbatim>\<open>sr.RequestError\<close>), a recognised
  text, or an exception that it does not catch. Of those there are three kinds: a
  \<^verbatim>\<open>KeyboardInterrupt\<close> during the capture; any other exception raised by the microphone or
  by \<^verbatim>\<open>recognizer.listen\<close> (an \<^verbatim>\<open>OSError\<close> of the audio device, say), which \<open>MicrophoneOSError\<close>
  stands for; and any other exception raised by \<^verbatim>\<open>recognize_google\<close> (a socket
  \<^verbatim>\<open>TimeoutError\<close> while the answer is read, say), which \<open>SocketTimeoutError\<close> stands for.
\<close>

datatype listen_outcome =
  WaitTimeoutError | UnknownValueError | RequestError | Recognized string | KeyboardInterrupt
  | MicrophoneOSError | SocketTimeoutError

text \<open>What leaves \<^verbatim>\<open>listen_for_speech\<close> as an exception: the interrupt, or another exception.\<close>

datatype escaped = Interrupted | Uncaught

text \<open>
  \<^verbatim>\<open>VoiceChat.listen_for_speech\<close>: the text or \<^verbatim>\<open>None\<close> that it returns, or the exception
  that escapes it, each with the world at that point.
\<close>

definition listen_for_speech ::
  "listen_outcome \<Rightarrow> world \<Rightarrow> escaped \<times> world + string option \<times> world" where
  "listen_for_speech outcome w =
     (let w1 = print ''Listening... (speak within 5 seconds)'' w in
      case outcome of
        WaitTimeoutError \<Rightarrow> Inr (None, print ''Listening timeout - no speech detected'' w1)
      | UnknownValueError \<Rightarrow>
          Inr (None, print ''Could not understand the audio'' (print ''Processing speech...'' w1))
      | RequestError \<Rightarrow>
          Inr (None, print ''Speech recognition service error''
                      (print ''Processing speech...'' w1))
      | Recognized text \<Rightarrow>
          Inr (Some text, print (''You said: '' @ text) (print ''Processing speech...'' w1))
      | KeyboardInterrupt \<Rightarrow> Inl (Interrupted, w1)
      | MicrophoneOSError \<Rightarrow> Inl (Uncaught, w1)
      | SocketTimeoutError \<Rightarrow> Inl (Uncaught, print ''Processing speech...'' w1))"

definition vc_default_responses :: "string list" where
  "vc_default_responses =
    [''That'' @ [CHR 0x27] @ ''s really interesting! Tell me more about that.'',
     ''I understand what you'' @ [CHR 0x27] @ ''re saying. Can you elaborate on that?'',
     ''That sounds fascinating! I'' @ [CHR 0x27] @ ''d love to hear more.'',
     ''Thanks for sharing that with me. What else is on your mind?'',
     ''I appreciate you telling me that. How do you feel about it?'',
     ''That'' @ [CHR 0x27] @ ''s a great point. What made you think of that?'',
     ''I'' @ [CHR 0x27] @ ''m listening and learning from our conversation. Please continue.'']"

text \<open>
  \<^verbatim>\<open>VoiceChat.generate_response\<close>. \<open>clk\<close> is the result of \<^verbatim>\<open>time.strftime\<close> and \<open>pick\<close> the
  index that \<^verbatim>\<open>random.choice\<close> draws.
\<close>

definition vc_generate_response :: "string \<Rightarrow> nat \<Rightarrow> string \<Rightarrow> string" where
  "vc_generate_response clk pick user_input =
     (let low = py_lower user_input in
      if any_in [''hello'', ''hi'', ''hey'', ''good morning'', ''good afternoon''] low then
        ''Hello! Nice to meet you. How are you doing today?''
      else if any_in [''how are you'', ''how do you do'', ''how'' @ [CHR 0x27] @ ''s it going''] low then
        ''I'' @ [CHR 0x27] @ ''m doing great, thank you for asking! I'' @ [CHR 0x27] @ ''m excited to have this conversation with you.''
      else if any_in [''what'', ''who'', ''where'', ''when'', ''why'', ''how''] low then
        ''That'' @ [CHR 0x27] @ ''s an interesting question. I'' @ [CHR 0x27] @ ''m still learning, but I'' @ [CHR 0x27] @ ''d be happy to discuss it with you.''
      else if any_in [''thank'', ''thanks''] low then
        ''You'' @ [CHR 0x27] @ ''re very welcome! I'' @ [CHR 0x27] @ ''m glad I could help.''
      else if any_in [''goodbye'', ''bye'', ''see you'', ''farewell''] low then
        ''Goodbye! It was great talking with you. Have a wonderful day!''
      else if any_in [''name'', ''call''] low then
        ''I'' @ [CHR 0x27] @ ''m an AI assistant powered by NeuTTS Air. You can call me whatever you'' @ [CHR 0x27] @ ''d like!''
      else if any_in [''weather'', ''sunny'', ''rainy'', ''cloudy''] low then
        ''I don'' @ [CHR 0x27] @ ''t have access to real-time weather data, but I hope you'' @ [CHR 0x27] @ ''re having a nice day regardless!''
      else if any_in [''time'', ''clock'', ''hour'', ''minute''] low then
        ''The current time is '' @ clk @ ''. How can I help you with your day?''
      else vc_default_responses ! (pick mod length vc_default_responses))"

record vc_turn =
  heard :: listen_outcome
  vc_clock :: string
  vc_pick :: nat
  vc_synth :: synth_env

definition vc_exit_words :: "string list" where
  "vc_exit_words = [''goodbye'', ''quit'', ''exit'', ''stop'']"

definition vc_farewell :: string where
  "vc_farewell = ''Goodbye! It was great talking with you. Have a wonderful day!''"

text \<open>How a run of the loop on the supplied turns ends.\<close>

datatype loop_end = Listening | ExitPhrase | Signalled | Crashed

text \<open>
  \<^verbatim>\<open>VoiceChat.run_conversation\<close>. The state is \<^verbatim>\<open>self.conversation_history\<close> and the world.
  \<open>Listening\<close> means that every supplied turn was run and the loop is in its next capture.
  The loop has no handler of its own: an exception that escapes \<^verbatim>\<open>listen_for_speech\<close>
  leaves it, a \<^verbatim>\<open>KeyboardInterrupt\<close> as the shutdown signal (\<open>Signalled\<close>) and any other as
  \<open>Crashed\<close>; \<^verbatim>\<open>main\<close> prints the error and the program ends.
\<close>

fun vc_run_conversation ::
  "vc_turn list \<Rightarrow> (string \<times> string) list \<times> world
     \<Rightarrow> loop_end \<times> vc_turn list \<times> (string \<times> string) list \<times> world" where
  "vc_run_conversation [] (h, w) = (Listening, [], h, w)"
| "vc_run_conversation (t # ts) (h, w) =
     (case listen_for_speech (heard t) w of
        Inl (Interrupted, w1) \<Rightarrow> (Signalled, ts, h, w1)
      | Inl (Uncaught, w1) \<Rightarrow> (Crashed, ts, h, w1)
      | Inr (None, w1) \<Rightarrow> vc_run_conversation ts (h, w1)
      | Inr (Some user_input, w1) \<Rightarrow>
          if any_in vc_exit_words (py_lower user_input)
          then (ExitPhrase, ts, h, vc_synthesize_response (vc_synth t) vc_farewell w1)
          else
            let response = vc_generate_response (vc_clock t) (vc_pick t) user_input;
                h' = h @ [(''user'', user_input), (''assistant'', response)]
            in vc_run_conversation ts (h', vc_synthesize_response (vc_synth t) response w1))"

section \<open>\<^verbatim>\<open>clean_exit_voice_chat.py\<close>: signal handler, cleanup and conversation loop\<close>

text \<open>
  The state of \<^verbatim>\<open>CleanExitVoiceChat\<close> and of its surroundings: the \<^verbatim>\<open>running\<close> flag, the
  conversation history, the names listed in \<^verbatim>\<open>tempfile.gettempdir()\<close>, and the world (files
  of the working directory, printed lines).
\<close>

record ce_state =
  running :: bool
  ce_history :: "(string \<times> string) list"
  temp_dir :: "string list"
  wld :: world

definition ce_print :: "string \<Rightarrow> ce_state \<Rightarrow> ce_state" where
  "ce_print msg s = s\<lparr>wld := print msg (wld s)\<rparr>"

definition endswith :: "string \<Rightarrow> string \<Rightarrow> bool" where
  "endswith s suffix = startswith (rev s) (rev suffix)"

text \<open>
  What \<^verbatim>\<open>cleanup\<close> meets: whether \<^verbatim>\<open>os.listdir\<close> succeeds, and the names on which
  \<^verbatim>\<open>os.remove\<close> raises (the bare \<^verbatim>\<open>except: pass\<close> swallows that).
\<close>

record cleanup_env =
  listdir_ok :: bool
  undeletable :: "string list"

definition cleanup :: "cleanup_env \<Rightarrow> ce_state \<Rightarrow> ce_state" where
  "cleanup ce s =
     (let s1 = ce_print ''Cleaning up resources...'' s in
      if \<not> listdir_ok ce then ce_print ''Cleanup warning'' s1
      else ce_print ''Cleanup complete!''
             (s1\<lparr>temp_dir :=
                   filter (\<lambda>f. \<not> (startswith f ''temp_response_'' \<and> endswith f ''.wav''
                                     \<and> f \<notin> set (undeletable ce)))
                          (temp_dir s1)\<rparr>))"

text \<open>The number of times \<^verbatim>\<open>cleanup\<close> has been entered: its first statement prints this line.\<close>

definition cleanup_runs :: "ce_state \<Rightarrow> nat" where
  "cleanup_runs s = length (filter (\<lambda>l. l = ''Cleaning up resources...'') (stdout (wld s)))"

datatype signal = SIGINT | SIGTERM

definition signum :: "signal \<Rightarrow> string" where
  "signum sg = (case sg of SIGINT \<Rightarrow> ''2'' | SIGTERM \<Rightarrow> ''15'')"

text \<open>
  \<^verbatim>\<open>signal_handler\<close>: it always ends in \<^verbatim>\<open>sys.exit(0)\<close>, that is, it raises
  \<^verbatim>\<open>SystemExit(0)\<close> in the code that the signal interrupted. The result is the exit code
  carried by the exception and the state at that point.
\<close>

definition signal_handler :: "signal \<Rightarrow> cleanup_env \<Rightarrow> ce_state \<Rightarrow> int \<times> ce_state" where
  "signal_handler sg ce s =
     (let s1 = ce_print (''Received signal '' @ signum sg @ ''. Shutting down gracefully...'') s;
          s2 = s1\<lparr>running := False\<rparr>;
          s3 = cleanup ce s2
      in (0, s3))"

definition ce_greetings :: "string list" where
  "ce_greetings =
     [''Hello! Great to meet you! I'' @ [CHR 0x27] @ ''m your local AI assistant.'',
      ''Hi there! I'' @ [CHR 0x27] @ ''m running completely offline on your device.'',
      ''Hey! Nice to chat with you. What would you like to talk about?'']"

definition ce_general :: "string \<Rightarrow> string list" where
  "ce_general user_input =
     [''That'' @ [CHR 0x27] @ ''s interesting! Tell me more about ''
        @ (case py_split user_input of [] \<Rightarrow> ''that'' | w # ws \<Rightarrow> last (w # ws)) @ ''.'',
      ''I understand. From a privacy perspective, that'' @ [CHR 0x27] @ ''s really important.'',
      ''Thanks for sharing that with me. What else would you like to discuss?'',
      ''That'' @ [CHR 0x27] @ ''s a great point. Since we'' @ [CHR 0x27] @ ''re talking locally, I can be completely honest with you.'',
      ''Fascinating! I'' @ [CHR 0x27] @ ''m processing this entirely on your device, so our conversation is completely private.'']"

text \<open>\<^verbatim>\<open>CleanExitVoiceChat.generate_response\<close>: the reply and the new history.\<close>

definition ce_generate_response ::
  "string \<Rightarrow> (string \<times> string) list \<Rightarrow> string \<times> (string \<times> string) list" where
  "ce_generate_response user_input h =
     (let h1 = h @ [(''user'', user_input)];
          user_lower = py_lower user_input;
          response =
           (if any_in [''hello'', ''hi'', ''hey'', ''good morning'', ''good afternoon'',
                       ''good evening''] user_lower
            then ce_greetings ! (length h1 mod length ce_greetings)
            else if any_in [''what can you do'', ''capabilities'', ''help'', ''what are you''] user_lower
            then ''I'' @ [CHR 0x27] @ ''m a privacy-focused voice assistant running entirely on your device. I can have conversations, answer questions, and help with various tasks - all while keeping your data completely private!''
            else if any_in [''privacy'', ''data'', ''cloud'', ''offline''] user_lower
            then ''That'' @ [CHR 0x27] @ ''s my specialty! Everything we discuss stays right here on your device. No data goes to the cloud, no companies can access our conversation. It'' @ [CHR 0x27] @ ''s complete privacy!''
            else if any_in [''how'', ''technology'', ''whisper'', ''neutts'', ''voice''] user_lower
            then ''I use OpenAI Whisper for speech recognition and NeuTTS Air for voice synthesis. Both run locally on your device, giving you powerful AI without compromising your privacy.''
            else if any_in [''goodbye'', ''bye'', ''see you'', ''farewell''] user_lower
            then ''Goodbye! It was wonderful talking with you. Remember, everything we discussed stayed private on your device. Take care!''
            else ce_general user_input ! (length h1 mod length (ce_general user_input)))
      in (response, h1 @ [(''assistant'', response)]))"

text \<open>
  \<^verbatim>\<open>CleanExitVoiceChat.synthesize_response\<close>. \<open>timestamp\<close> is \<^verbatim>\<open>int(time.time() * 1000)\<close> in
  decimal. The removal is wrapped in \<^verbatim>\<open>try: ... except: pass\<close>, so a failing
  \<^verbatim>\<open>os.remove\<close> is swallowed. The second test of \<^verbatim>\<open>self.running\<close>, after \<^verbatim>\<open>sf.write\<close>, reads
  the flag that the first test read: no signal arrives inside this model of the call.
\<close>

definition ce_synthesize_response :: "synth_env \<Rightarrow> string \<Rightarrow> string \<Rightarrow> ce_state \<Rightarrow> ce_state" where
  "ce_synthesize_response env timestamp response_text s =
     (if \<not> running s then s
      else
        let w1 = print ''Generating speech...'' (print (''AI: '' @ response_text) (wld s));
            path = abspath (cwd env) (''temp_response_'' @ timestamp @ ''.wav'')
        in s\<lparr>wld := handle_speech_error
             (case infer_result env of
                Inl e \<Rightarrow> (Some e, w1)
              | Inr wav \<Rightarrow>
                  if \<not> write_ok env then (Some WriteError, w1)
                  else let w2 = w1\<lparr>files := path # removeAll path (files w1)\<rparr> in
                    (case play env of
                       PlayRaises \<Rightarrow> (Some PlayerNotFound, w2)
                     | PlayExit rc \<Rightarrow>
                         let w3 = (if rc \<noteq> 0 then print ''Audio playback error'' w2 else w2) in
                         (None, if path \<in> set (files w3) \<and> remove_ok env
                                then w3\<lparr>files := removeAll path (files w3)\<rparr> else w3)))\<rparr>)"

text \<open>
  What happens in one iteration: a signal is delivered while \<^verbatim>\<open>listen_for_speech\<close> is
  capturing, or \<^verbatim>\<open>listen_for_speech\<close> returns (a text, or \<^verbatim>\<open>None\<close> after a timeout or a
  recognition error).
\<close>

datatype ce_event = SignalMidCapture signal | Captured "string option"

record ce_turn =
  event :: ce_event
  handler_env :: cleanup_env
  ce_timestamp :: string
  ce_synth :: synth_env

definition ce_exit_words :: "string list" where
  "ce_exit_words = [''goodbye'', ''quit'', ''exit'', ''stop'', ''bye'']"

definition ce_farewell :: string where
  "ce_farewell = ''Goodbye! Thanks for using the clean exit voice chat. Everything processed locally for your privacy!''"

text \<open>How the \<^verbatim>\<open>while self.running\<close> loop is left, if it is.\<close>

datatype ce_loop_end = StillListening | LoopLeft | SystemExit int

text \<open>
  The loop of \<^verbatim>\<open>CleanExitVoiceChat.run_conversation\<close>. A signal runs the handler inside the
  capture; the \<^verbatim>\<open>SystemExit\<close> it raises is caught neither by \<^verbatim>\<open>listen_for_speech\<close> (which
  catches \<^verbatim>\<open>WaitTimeoutError\<close>, \<^verbatim>\<open>KeyboardInterrupt\<close> and \<^verbatim>\<open>Exception\<close>) nor by the loop.
\<close>

fun ce_loop :: "ce_turn list \<Rightarrow> ce_state \<Rightarrow> ce_loop_end \<times> ce_turn list \<times> ce_state" where
  "ce_loop [] s = (if running s then (StillListening, [], s) else (LoopLeft, [], s))"
| "ce_loop (t # ts) s =
     (if \<not> running s then (LoopLeft, t # ts, s)
      else case event t of
        SignalMidCapture sg \<Rightarrow>
          (case signal_handler sg (handler_env t) (ce_print ''Listening... (speak within 5 seconds)'' s) of
             (code, s') \<Rightarrow> (SystemExit code, ts, s'))
      | Captured None \<Rightarrow> ce_loop ts (ce_print ''Listening... (speak within 5 seconds)'' s)
      | Captured (Some user_input) \<Rightarrow>
          let s1 = ce_print ''Listening... (speak within 5 seconds)'' s in
          if any_in ce_exit_words (py_lower user_input)
          then (LoopLeft, ts, ce_synthesize_response (ce_synth t) (ce_timestamp t) ce_farewell s1)
          else (case ce_generate_response user_input (ce_history s1) of
                  (response, h') \<Rightarrow>
                    ce_loop ts (ce_synthesize_response (ce_synth t) (ce_timestamp t) response
                                  (s1\<lparr>ce_history := h'\<rparr>))))"

text \<open>
  \<^verbatim>\<open>run_conversation\<close> with its \<^verbatim>\<open>finally\<close> block, followed by the end of \<^verbatim>\<open>main\<close>: the
  exit status of the process, if it has exited, and the final state. A pending
  \<^verbatim>\<open>SystemExit\<close> passes through the \<^verbatim>\<open>finally\<close> block and gives the exit status.
\<close>

definition ce_finally :: "cleanup_env \<Rightarrow> ce_state \<Rightarrow> ce_state" where
  "ce_finally ce s = ce_print ''Goodbye!'' (cleanup ce (ce_print ''Cleaning up...'' s))"

definition ce_run_conversation :: "cleanup_env \<Rightarrow> ce_turn list \<Rightarrow> ce_state \<Rightarrow> int option \<times> ce_state" where
  "ce_run_conversation ce ts s =
     (case ce_loop ts s of
        (StillListening, rest, s') \<Rightarrow> (None, s')
      | (LoopLeft, rest, s') \<Rightarrow> (Some 0, ce_print ''Program ended'' (ce_finally ce s'))
      | (SystemExit code, rest, s') \<Rightarrow> (Some code, ce_print ''Program ended'' (ce_finally ce s')))"

section \<open>Notions used in the statements\<close>

text \<open>
  A turn of \<^verbatim>\<open>voice_chat.py\<close> that ends the loop: a shutdown signal, an exception that
  \<^verbatim>\<open>listen_for_speech\<close> does not catch, or a transcript with an exit phrase.
\<close>

definition vc_stops :: "vc_turn \<Rightarrow> bool" where
  "vc_stops t = (case heard t of KeyboardInterrupt \<Rightarrow> True
     | MicrophoneOSError \<Rightarrow> True | SocketTimeoutError \<Rightarrow> True
     | Recognized u \<Rightarrow> any_in vc_exit_words (py_lower u) | _ \<Rightarrow> False)"

text \<open>What a turn that does not end the loop appends to the conversation history.\<close>

definition vc_turn_history :: "vc_turn \<Rightarrow> (string \<times> string) list" where
  "vc_turn_history t = (case heard t of
      Recognized u \<Rightarrow>
        [(''user'', u), (''assistant'', vc_generate_response (vc_clock t) (vc_pick t) u)]
    | _ \<Rightarrow> [])"

text \<open>Sample surroundings for the examples: nothing printed yet, and a synthesis that works.\<close>

definition empty_world :: world where
  "empty_world = \<lparr>files = [], stdout = []\<rparr>"

definition sample_env :: synth_env where
  "sample_env = \<lparr>infer_result = Inr [1 / 2, - 1 / 4],
     uuid4 = ''0123abcd-89ab-4cde-8f01-23456789abcd'', cwd = ''/home/user'',
     write_ok = True, play = PlayExit 0, remove_ok = True\<rparr>"

definition sample_cleanup_env :: cleanup_env where
  "sample_cleanup_env = \<lparr>listdir_ok = True, undeletable = []\<rparr>"

section \<open>Verified properties\<close>

lemmas str_defs =
  py_lower_def lower_char_def startswith_def py_split_def is_space_def py_strip_def

subsection \<open>Name extraction\<close>

lemma respond_all_Cons_snd:
  "snd (respond_all ((c, u) # xs) p) = snd (respond_all xs (snd (generate_response c u p)))"
  by (simp split: prod.splits)

lemma respond_all_Cons_fst:
  "fst (respond_all ((c, u) # xs) p) =
     fst (generate_response c u p) # fst (respond_all xs (snd (generate_response c u p)))"
  by (simp split: prod.splits)

lemma generate_response_keeps_name:
  "truthy (user_name p) \<Longrightarrow> user_name (snd (generate_response c u p)) = user_name p"
  by (simp add: generate_response_def update_name_def Let_def)

lemma respond_all_keeps_name:
  "truthy (user_name p) \<Longrightarrow> user_name (snd (respond_all xs p)) = user_name p"
proof (induction xs arbitrary: p)
  case Nil
  then show ?case by simp
next
  case (Cons x xs)
  obtain c u where x: "x = (c, u)" by (cases x)
  have keep: "user_name (snd (generate_response c u p)) = user_name p"
    using Cons.prems by (rule generate_response_keeps_name)
  then have "truthy (user_name (snd (generate_response c u p)))"
    using Cons.prems by simp
  from Cons.IH [OF this] keep show ?case
    unfolding x respond_all_Cons_snd by simp
qed

lemma smart_update_keeps_name:
  "truthy (s_user_name q) \<Longrightarrow> s_user_name (fold smart_update us q) = s_user_name q"
  by (induction us arbitrary: q) (simp_all add: smart_update_def update_name_def)

text \<open>
  Claim C4. On the utterance \<^verbatim>\<open>"Hi, my name is Dave"\<close> with no name stored,
  \<^verbatim>\<open>generate_response\<close> does not store \<^verbatim>\<open>"Dave"\<close>: the loop over the words stops at the first
  word of the list \<^verbatim>\<open>['name', 'is', 'am', "i'm"]\<close>, which is \<^verbatim>\<open>name\<close>, and stores the word after
  it, \<^verbatim>\<open>"is"\<close>. The greeting that the same call returns is addressed to \<^verbatim>\<open>is\<close>.
\<close>

theorem name_extraction_dave:
  "user_name (snd (generate_response c ''Hi, my name is Dave'' fresh_profile)) = Some ''is''
   \<and> fst (generate_response c ''Hi, my name is Dave'' fresh_profile)
       = ''Hey is! How'' @ [CHR 0x27] @ ''s it going today?''"
  by (simp add: generate_response_def update_name_def select_reply_def fresh_profile_def
      intro_cues_def cue_words_def str_defs Let_def)

text \<open>
  Claim C10. Once \<^verbatim>\<open>user_name\<close> holds a non-empty string, no sequence of later calls of the
  dispatcher changes it, whatever the utterances are: in \<^verbatim>\<open>push_to_talk_chat.py\<close>
  (\<^verbatim>\<open>generate_response\<close>) and in \<^verbatim>\<open>smart_edge_voice_chat.py\<close> (\<^verbatim>\<open>generate_smart_response\<close>).
\<close>

theorem user_name_stable:
  "(truthy (user_name p) \<longrightarrow> user_name (snd (respond_all xs p)) = user_name p)
   \<and> (truthy (s_user_name q) \<longrightarrow> s_user_name (fold smart_update us q) = s_user_name q)"
  by (simp add: respond_all_keeps_name smart_update_keeps_name)

theorem user_name_stable_witness:
  "truthy (user_name \<lparr>conversation_history = [], user_name = Some ''Dave'', response_count = 1\<rparr>)
   \<and> user_name (snd (respond_all [(''09:00 AM'', ''I am Bob'')]
        \<lparr>conversation_history = [], user_name = Some ''Dave'', response_count = 1\<rparr>)) = Some ''Dave''
   \<and> truthy (s_user_name \<lparr>s_conversation_history = [], s_user_name = Some ''Dave'',
        s_topics_discussed = {}, s_response_count = 1\<rparr>)
   \<and> s_user_name (fold smart_update [''I am Bob'']
        \<lparr>s_conversation_history = [], s_user_name = Some ''Dave'',
         s_topics_discussed = {}, s_response_count = 1\<rparr>) = Some ''Dave''"
  using user_name_stable [of
      "\<lparr>conversation_history = [], user_name = Some ''Dave'', response_count = 1\<rparr>"
      "[(''09:00 AM'', ''I am Bob'')]"
      "\<lparr>s_conversation_history = [], s_user_name = Some ''Dave'',
        s_topics_discussed = {}, s_response_count = 1\<rparr>"
      "[''I am Bob'']"]
  by simp

subsection \<open>Push-to-talk capture\<close>



subsection \<open>The temporary artifact\<close>

text \<open>
  Claim C5. In \<^verbatim>\<open>voice_chat.py\<close> the artifact path does not depend on the invocation: two
  calls of \<^verbatim>\<open>synthesize_response\<close> in one session, whatever identifiers are at hand, write
  to the same path, the fixed name \<^verbatim>\<open>temp_response.wav\<close> in the working directory.
\<close>

theorem vc_output_path_reused:
  "vc_output_path (env\<lparr>uuid4 := a\<rparr>) = vc_output_path (env\<lparr>uuid4 := b\<rparr>)
   \<and> vc_output_path env = abspath (cwd env) ''temp_response.wav''"
  by (simp add: vc_output_path_def)

text \<open>
  Claim C3. When the player cannot be started (\<^verbatim>\<open>subprocess.run\<close> raises), the call of
  \<^verbatim>\<open>synthesize_response\<close> of \<^verbatim>\<open>push_to_talk_chat.py\<close> returns with the artifact still in
  the working directory: the removal is the last statement of the \<^verbatim>\<open>try\<close> body, not a
  \<^verbatim>\<open>finally\<close> block, and the exception skips it.
\<close>

theorem artifact_left_when_player_fails:
  "files (pt_synthesize_response
      \<lparr>infer_result = Inr [1 / 2, - 1 / 4], uuid4 = ''0123abcd-89ab-4cde-8f01-23456789abcd'',
       cwd = ''/home/user'', write_ok = True, play = PlayRaises, remove_ok = True\<rparr>
      ''Hi there!'' \<lparr>files = [], stdout = []\<rparr>) = [''/home/user/temp_response_0123abcd.wav'']"
  by (simp add: pt_synthesize_response_def pt_normalize_def normalize_peak_def
      write_play_remove_def handle_speech_error_def print_def pt_output_path_def abspath_def
      Let_def)

subsection \<open>Replies and the clock\<close>

lemma select_reply_clock:
  "\<not> time_rule_first low \<Longrightarrow> select_reply c1 nm cnt low = select_reply c2 nm cnt low"
  unfolding select_reply_def time_rule_first_def
  by (auto simp del: any_in.simps py_in.simps)

lemma generate_response_clock:
  "\<not> time_rule_first (py_lower u) \<Longrightarrow> generate_response c1 u p = generate_response c2 u p"
  by (simp add: generate_response_def Let_def select_reply_clock [of _ c1 _ _ c2])

lemma respond_all_clock:
  "map snd xs = map snd ys \<Longrightarrow> \<forall>u\<in>set (map snd xs). \<not> time_rule_first (py_lower u)
   \<Longrightarrow> respond_all xs p = respond_all ys p"
proof (induction xs arbitrary: ys p)
  case Nil
  then show ?case by simp
next
  case (Cons x xs)
  obtain c u where x: "x = (c, u)" by (cases x)
  from Cons.prems(1) obtain y ys' where ys: "ys = y # ys'" by (cases ys) auto
  obtain c' u' where y: "y = (c', u')" by (cases y)
  from Cons.prems(1) have uu: "u' = u" and rest: "map snd xs = map snd ys'"
    by (simp_all add: x ys y)
  from Cons.prems(2) have nt: "\<not> time_rule_first (py_lower u)"
    and nts: "\<forall>u\<in>set (map snd xs). \<not> time_rule_first (py_lower u)"
    by (simp_all add: x)
  have g: "generate_response c u p = generate_response c' u p"
    using nt by (rule generate_response_clock)
  show ?case
    unfolding x ys y uu
    by (simp add: g Cons.IH [OF rest nts] split: prod.splits)
qed

text \<open>
  Claim C6, as stated, fails: the reply of \<^verbatim>\<open>generate_response\<close> to \<^verbatim>\<open>"What time is it?"\<close>
  quotes the wall clock, so two runs on the same utterance and a fresh profile, one minute
  apart, give different replies.
\<close>

theorem replies_depend_on_clock:
  "fst (respond_all [(''09:00 AM'', ''What time is it?'')] fresh_profile)
   \<noteq> fst (respond_all [(''09:01 AM'', ''What time is it?'')] fresh_profile)"
  by (simp add: generate_response_def select_reply_def update_name_def fresh_profile_def
      intro_cues_def py_lower_def lower_char_def startswith_def Let_def)

text \<open>
  Claim C6, amended. Two runs of \<^verbatim>\<open>generate_response\<close> on the same sequence of utterances,
  from the same profile (a fresh one in particular), give the same replies and the same
  final profile, whatever the clock shows in either run, provided that no utterance is
  answered by the time rule (the rule for \<^verbatim>\<open>time\<close> and \<^verbatim>\<open>clock\<close>, when no earlier rule
  matches).
\<close>

theorem replies_deterministic_off_clock:
  "map snd xs = map snd ys \<Longrightarrow> \<forall>u\<in>set (map snd xs). \<not> time_rule_first (py_lower u)
   \<Longrightarrow> respond_all xs p = respond_all ys p"
  by (rule respond_all_clock)

theorem replies_deterministic_off_clock_witness:
  "map snd [(''09:00 AM'', ''I like music''), (''09:01 AM'', ''Tell me'')]
     = map snd [(''11:30 PM'', ''I like music''), (''11:45 PM'', ''Tell me'')]
   \<and> \<not> time_rule_first (py_lower ''I like music'')
   \<and> \<not> time_rule_first (py_lower ''Tell me'')
   \<and> respond_all [(''09:00 AM'', ''I like music''), (''09:01 AM'', ''Tell me'')] fresh_profile
     = respond_all [(''11:30 PM'', ''I like music''), (''11:45 PM'', ''Tell me'')] fresh_profile"
proof -
  have h1: "map snd [(''09:00 AM'', ''I like music''), (''09:01 AM'', ''Tell me'')]
     = map snd [(''11:30 PM'', ''I like music''), (''11:45 PM'', ''Tell me'')]"
    by simp
  have n1: "\<not> time_rule_first (py_lower ''I like music'')"
    and n2: "\<not> time_rule_first (py_lower ''Tell me'')"
    by (simp_all add: time_rule_first_def py_lower_def lower_char_def startswith_def)
  have h2: "\<forall>u\<in>set (map snd [(''09:00 AM'', ''I like music''), (''09:01 AM'', ''Tell me'')]).
         \<not> time_rule_first (py_lower u)"
    using n1 n2 by simp
  from h1 n1 n2 replies_deterministic_off_clock [OF h1 h2, of fresh_profile] show ?thesis
    by blast
qed

subsection \<open>Amplitude normalisation\<close>

lemma np_max_abs: "wav \<noteq> [] \<Longrightarrow> np_max (map abs wav) = Inr (peak wav)"
  by (cases wav) (simp_all add: peak_def)

lemma peak_Max: "wav \<noteq> [] \<Longrightarrow> peak wav = Max (abs ` set wav)"
  by (cases wav) (simp_all add: peak_def Max.set_eq_fold [symmetric])

lemma peak_scale:
  assumes "wav \<noteq> []" and "0 < m" and "0 \<le> t"
  shows "peak (map (\<lambda>x. x / m * t) wav) = peak wav / m * t"
proof -
  have mono: "mono (\<lambda>y::real. y / m * t)"
    using assms(2,3) by (auto intro!: monoI mult_right_mono divide_right_mono)
  have fin: "finite (abs ` set wav)" and ne: "abs ` set wav \<noteq> {}"
    using assms(1) by simp_all
  have "peak (map (\<lambda>x. x / m * t) wav) = Max (abs ` (\<lambda>x. x / m * t) ` set wav)"
    using assms(1) by (simp add: peak_Max)
  also have "abs ` (\<lambda>x. x / m * t) ` set wav = (\<lambda>y. y / m * t) ` abs ` set wav"
    using assms(2,3) by (simp add: image_image abs_mult)
  also have "Max \<dots> = Max (abs ` set wav) / m * t"
    using mono_Max_commute [OF mono fin ne] by simp
  finally show ?thesis using assms(1) by (simp add: peak_Max)
qed

lemma normalize_peak_nonzero:
  assumes "wav \<noteq> []" and "0 < peak wav" and "0 \<le> t"
  shows "\<exists>wav'. normalize_peak t wav = Inr wav' \<and> peak wav' = t"
proof -
  have m: "np_max (map abs wav) = Inr (peak wav)"
    using assms(1) by (rule np_max_abs)
  have eq: "normalize_peak t wav = Inr (map (\<lambda>x. x / peak wav * t) wav)"
    unfolding normalize_peak_def m using assms(2) by (simp only: sum.case if_True)
  have "peak (map (\<lambda>x. x / peak wav * t) wav) = peak wav / peak wav * t"
    using assms by (rule peak_scale)
  also have "\<dots> = t"
    using assms(2) by simp
  finally have pk: "peak (map (\<lambda>x. x / peak wav * t) wav) = t" .
  from eq pk show ?thesis by blast
qed

lemma normalize_peak_silent:
  assumes "wav \<noteq> []" and "peak wav = 0"
  shows "normalize_peak t wav = Inr wav"
  using assms by (simp add: normalize_peak_def np_max_abs)

text \<open>
  Claim C2, as stated, fails for \<^verbatim>\<open>ultra_fast_voice_chat.py\<close>, whose normalisation step
  scales to 0.7: the waveform \<^verbatim>\<open>[0.5, -1.0]\<close> comes out with peak 0.7, not 0.8.
\<close>

theorem ultra_fast_peak_is_not_08:
  "uf_normalize [1 / 2, - 1] = Inr [7 / 20, - (7 / 10)]
   \<and> peak [7 / 20, - (7 / 10)] = 7 / 10
   \<and> peak [7 / 20, - (7 / 10)] \<noteq> 8 / 10"
  by (simp add: uf_normalize_def normalize_peak_def peak_def)

text \<open>
  Claim C2, amended. Over the real numbers, for every non-empty waveform: if its peak
  absolute amplitude is nonzero, the normalisation step returns a waveform whose peak is the
  target of the script, 0.8 in \<^verbatim>\<open>push_to_talk_chat.py\<close> and 0.7 in
  \<^verbatim>\<open>ultra_fast_voice_chat.py\<close>; if the peak is zero the waveform is returned as it is, the
  division being in the other branch.
\<close>

theorem normalize_reaches_target:
  "wav \<noteq> [] \<Longrightarrow>
   (0 < peak wav \<longrightarrow>
      (\<exists>a b. pt_normalize wav = Inr a \<and> peak a = 8 / 10
            \<and> uf_normalize wav = Inr b \<and> peak b = 7 / 10))
   \<and> (peak wav = 0 \<longrightarrow> pt_normalize wav = Inr wav \<and> uf_normalize wav = Inr wav)"
  unfolding pt_normalize_def uf_normalize_def
  using normalize_peak_nonzero [of wav "8 / 10"] normalize_peak_nonzero [of wav "7 / 10"]
    normalize_peak_silent [of wav "8 / 10"] normalize_peak_silent [of wav "7 / 10"]
  by auto

theorem normalize_reaches_target_witness:
  "[1 / 2, - 1 / 4] \<noteq> ([] :: real list) \<and> 0 < peak [1 / 2, - 1 / 4]
   \<and> (\<exists>a b. pt_normalize [1 / 2, - 1 / 4] = Inr a \<and> peak a = 8 / 10
           \<and> uf_normalize [1 / 2, - 1 / 4] = Inr b \<and> peak b = 7 / 10)
   \<and> [0, 0] \<noteq> ([] :: real list) \<and> peak [0, 0] = 0
   \<and> pt_normalize [0, 0] = Inr [0, 0] \<and> uf_normalize [0, 0] = Inr [0, 0]"
proof -
  have n1: "[1 / 2, - 1 / 4] \<noteq> ([] :: real list)" and n2: "[0, 0] \<noteq> ([] :: real list)"
    by simp_all
  have p1: "0 < peak [1 / 2, - 1 / 4]" and p2: "peak [0, 0] = 0"
    by (simp_all add: peak_def)
  from n1 n2 p1 p2 normalize_reaches_target [OF n1] normalize_reaches_target [OF n2]
  show ?thesis by blast
qed

subsection \<open>The loop of \<^verbatim>\<open>voice_chat.py\<close> and the errors of a turn\<close>

lemma vc_run_no_stop:
  "\<forall>t\<in>set ts. \<not> vc_stops t \<Longrightarrow>
   fst (vc_run_conversation ts (h, w)) = Listening
   \<and> fst (snd (vc_run_conversation ts (h, w))) = []
   \<and> fst (snd (snd (vc_run_conversation ts (h, w)))) = h @ concat (map vc_turn_history ts)"
proof (induction ts arbitrary: h w)
  case Nil
  then show ?case by simp
next
  case (Cons t ts)
  from Cons.prems have nt: "\<not> vc_stops t" and rest: "\<forall>t\<in>set ts. \<not> vc_stops t"
    by simp_all
  note IH = Cons.IH [OF rest]
  show ?case
  proof (cases "heard t")
    case WaitTimeoutError
    then show ?thesis
      by (simp add: IH listen_for_speech_def vc_turn_history_def Let_def)
  next
    case UnknownValueError
    then show ?thesis
      by (simp add: IH listen_for_speech_def vc_turn_history_def Let_def)
  next
    case RequestError
    then show ?thesis
      by (simp add: IH listen_for_speech_def vc_turn_history_def Let_def)
  next
    case (Recognized u)
    with nt have ne: "\<not> any_in vc_exit_words (py_lower u)"
      by (simp add: vc_stops_def)
    from Recognized ne show ?thesis
      by (simp add: IH listen_for_speech_def vc_turn_history_def Let_def)
  next
    case KeyboardInterrupt
    with nt show ?thesis by (simp add: vc_stops_def)
  next
    case MicrophoneOSError
    with nt show ?thesis by (simp add: vc_stops_def)
  next
    case SocketTimeoutError
    with nt show ?thesis by (simp add: vc_stops_def)
  qed
qed

lemma vc_run_stop:
  "\<exists>t\<in>set ts. vc_stops t \<Longrightarrow> fst (vc_run_conversation ts (h, w)) \<noteq> Listening"
proof (induction ts arbitrary: h w)
  case Nil
  then show ?case by simp
next
  case (Cons t ts)
  show ?case
  proof (cases "vc_stops t")
    case True
    then show ?thesis
      by (cases "heard t") (simp_all add: vc_stops_def listen_for_speech_def Let_def)
  next
    case False
    with Cons.prems have "\<exists>t\<in>set ts. vc_stops t" by simp
    note IH = Cons.IH [OF this]
    from False show ?thesis
      by (cases "heard t") (simp_all add: IH vc_stops_def listen_for_speech_def Let_def)
  qed
qed

text \<open>
  What does hold in \<^verbatim>\<open>voice_chat.py\<close>: a run over any turns is still listening at the end
  exactly when no turn carries an exit phrase, a shutdown signal or an exception that
  \<^verbatim>\<open>listen_for_speech\<close> does not catch. In that case every turn was run, whatever happened in
  it (capture timeout, speech not understood, recognition service error, failing synthesis,
  failing player, failing write or removal of the artifact), and the history has grown by
  the recognised turns only.
\<close>

lemma vc_loop_listening_iff:
  "(fst (vc_run_conversation ts (h, w)) = Listening \<longleftrightarrow> (\<forall>t\<in>set ts. \<not> vc_stops t))
   \<and> ((\<forall>t\<in>set ts. \<not> vc_stops t) \<longrightarrow>
        fst (snd (vc_run_conversation ts (h, w))) = []
        \<and> fst (snd (snd (vc_run_conversation ts (h, w)))) = h @ concat (map vc_turn_history ts))"
  using vc_run_no_stop [of ts h w] vc_run_stop [of ts h w] by blast

text \<open>
  Claim C8. An error of one turn can end the loop of \<^verbatim>\<open>voice_chat.py\<close>: when
  \<^verbatim>\<open>recognize_google\<close> raises an exception other than \<^verbatim>\<open>UnknownValueError\<close> and
  \<^verbatim>\<open>RequestError\<close>, or the microphone one other than \<^verbatim>\<open>WaitTimeoutError\<close>, the exception escapes
  \<^verbatim>\<open>listen_for_speech\<close> and \<^verbatim>\<open>run_conversation\<close>: the loop is left with neither an exit phrase
  nor a shutdown signal, the turns after it are not started, and the history is as it was.
\<close>

theorem uncaught_capture_error_ends_loop:
  "vc_run_conversation (t\<lparr>heard := SocketTimeoutError\<rparr> # ts) (h, w)
     = (Crashed, ts, h,
        print ''Processing speech...'' (print ''Listening... (speak within 5 seconds)'' w))
   \<and> vc_run_conversation (t\<lparr>heard := MicrophoneOSError\<rparr> # ts) (h, w)
     = (Crashed, ts, h, print ''Listening... (speak within 5 seconds)'' w)"
  by (simp add: listen_for_speech_def Let_def)

subsection \<open>Exit phrases\<close>

lemma synth_calls_print:
  "synth_calls (print msg w) = synth_calls w + (if startswith msg ''AI: '' then 1 else 0)"
  by (simp add: synth_calls_def print_def)

lemma synth_calls_files [simp]: "synth_calls (w\<lparr>files := fs\<rparr>) = synth_calls w"
  by (simp add: synth_calls_def)

lemma synth_calls_AI [simp]: "synth_calls (print (''AI: '' @ text) w) = Suc (synth_calls w)"
  by (simp add: synth_calls_print startswith_def)

lemma synth_calls_handle:
  "synth_calls (handle_speech_error (e, w)) = synth_calls w"
  by (cases e) (simp_all add: handle_speech_error_def synth_calls_print startswith_def)

lemma synth_calls_wpr:
  "synth_calls (snd (write_play_remove env path w)) = synth_calls w"
  by (simp add: write_play_remove_def Let_def synth_calls_print startswith_def
      split: play_outcome.splits)

lemma handle_pair: "handle_speech_error r = handle_speech_error (fst r, snd r)"
  by simp

lemma pt_synth_calls:
  "synth_calls (pt_synthesize_response env text w) = Suc (synth_calls w)"
  unfolding pt_synthesize_response_def Let_def
  by (subst handle_pair, subst synth_calls_handle)
     (simp add: synth_calls_wpr synth_calls_print startswith_def split: sum.splits)

lemma vc_synth_calls:
  "synth_calls (vc_synthesize_response env text w) = Suc (synth_calls w)"
  unfolding vc_synthesize_response_def Let_def
  by (subst handle_pair, subst synth_calls_handle)
     (simp add: synth_calls_wpr synth_calls_print startswith_def split: sum.splits)

lemma pt_listen_synth_calls:
  "synth_calls (snd (listen_with_push_to_talk cap w)) = synth_calls w"
  by (simp add: listen_with_push_to_talk_def Let_def synth_calls_print startswith_def
      split: list.splits)

lemma vc_listen_synth_calls:
  "listen_for_speech outcome w = Inr (r, w1) \<Longrightarrow> synth_calls w1 = synth_calls w"
  by (cases outcome)
     (auto simp add: listen_for_speech_def Let_def synth_calls_print startswith_def)

text \<open>
  Claim C1, as stated, fails in two ways. In \<^verbatim>\<open>voice_chat.py\<close>, whose exit list has no
  \<^verbatim>\<open>bye\<close>, the transcript \<^verbatim>\<open>"Bye for now"\<close> contains the exit phrase \<^verbatim>\<open>bye\<close>, yet the loop
  answers it like any other utterance and goes on to the next capture, which here times out.
  In \<^verbatim>\<open>push_to_talk_chat.py\<close> the transcript \<^verbatim>\<open>"Please stop"\<close> does stop the loop after one
  synthesis, but what is spoken is a default reply of \<^verbatim>\<open>generate_response\<close>, not a farewell.
\<close>

theorem exit_phrase_claim_fails:
  "any_in [''goodbye'', ''quit'', ''exit'', ''stop'', ''bye''] (py_lower ''Bye for now'')
   \<and> fst (vc_run_conversation
        [\<lparr>heard = Recognized ''Bye for now'', vc_clock = ''09:00 AM'', vc_pick = 0,
          vc_synth = sample_env\<rparr>,
         \<lparr>heard = WaitTimeoutError, vc_clock = ''09:01 AM'', vc_pick = 0,
          vc_synth = sample_env\<rparr>]
        ([], empty_world)) = Listening
   \<and> fst (snd (vc_run_conversation
        [\<lparr>heard = Recognized ''Bye for now'', vc_clock = ''09:00 AM'', vc_pick = 0,
          vc_synth = sample_env\<rparr>,
         \<lparr>heard = WaitTimeoutError, vc_clock = ''09:01 AM'', vc_pick = 0,
          vc_synth = sample_env\<rparr>]
        ([], empty_world))) = []
   \<and> any_in [''goodbye'', ''quit'', ''exit'', ''stop'', ''bye''] (py_lower ''Please stop'')
   \<and> fst (pt_run_conversation
        [\<lparr>capture = \<lparr>wait_raises = False,
             chunks = [\<lparr>raw_data = [0, 1], sample_rate = 16000, sample_width = 2\<rparr>],
             process = (\<lambda>a. Some ''Please stop'')\<rparr>,
           clock = ''09:00 AM'', synth = sample_env\<rparr>]
        (fresh_profile, empty_world)) = True
   \<and> stdout (snd (snd (snd (pt_run_conversation
        [\<lparr>capture = \<lparr>wait_raises = False,
             chunks = [\<lparr>raw_data = [0, 1], sample_rate = 16000, sample_width = 2\<rparr>],
             process = (\<lambda>a. Some ''Please stop'')\<rparr>,
           clock = ''09:00 AM'', synth = sample_env\<rparr>]
        (fresh_profile, empty_world)))))
     = [''Hold SPACE to talk, release to stop...'', ''Processing recorded speech...'',
        ''AI: I see what you mean. Can you elaborate on that?'', ''Generating speech...'']"
  by (simp add: listen_for_speech_def vc_exit_words_def pt_exit_words_def py_lower_def
      lower_char_def startswith_def Let_def listen_with_push_to_talk_def print_def
      generate_response_def select_reply_def update_name_def intro_cues_def
      default_responses_def fresh_profile_def empty_world_def sample_env_def
      pt_synthesize_response_def pt_normalize_def normalize_peak_def write_play_remove_def
      handle_speech_error_def pt_output_path_def abspath_def)

text \<open>
  Claim C1, amended. When the transcript of a turn contains an exit phrase of the script's
  own list (\<^verbatim>\<open>goodbye\<close>, \<^verbatim>\<open>quit\<close>, \<^verbatim>\<open>exit\<close>, \<^verbatim>\<open>stop\<close>, \<^verbatim>\<open>bye\<close> in \<^verbatim>\<open>push_to_talk_chat.py\<close>;
  \<^verbatim>\<open>goodbye\<close>, \<^verbatim>\<open>quit\<close>, \<^verbatim>\<open>exit\<close>, \<^verbatim>\<open>stop\<close> in \<^verbatim>\<open>voice_chat.py\<close>), the loop calls the
  synthesis step exactly once in that turn and stops, the turns after it not being started.
  What that one call speaks is, in \<^verbatim>\<open>push_to_talk_chat.py\<close>, the reply that
  \<^verbatim>\<open>generate_response\<close> gives to the transcript (the profile being updated by that call), and
  in \<^verbatim>\<open>voice_chat.py\<close> the fixed farewell, the history being left as it was: the state after
  the turn is the state after the capture followed by that one call of
  \<^verbatim>\<open>synthesize_response\<close>.
\<close>

theorem exit_phrase_one_synthesis_then_stop:
  "(listen_with_push_to_talk (capture t) w = (Some u, w1) \<and> any_in pt_exit_words (py_lower u)
      \<longrightarrow> pt_run_conversation (t # ts) (p, w)
             = (True, ts, snd (generate_response (clock t) u p),
                pt_synthesize_response (synth t) (fst (generate_response (clock t) u p)) w1)
          \<and> synth_calls
               (pt_synthesize_response (synth t) (fst (generate_response (clock t) u p)) w1)
             = synth_calls w + 1)
   \<and> (listen_for_speech (heard vt) hw = Inr (Some v, hw1) \<and> any_in vc_exit_words (py_lower v)
      \<longrightarrow> vc_run_conversation (vt # vts) (h, hw)
             = (ExitPhrase, vts, h, vc_synthesize_response (vc_synth vt) vc_farewell hw1)
          \<and> synth_calls (vc_synthesize_response (vc_synth vt) vc_farewell hw1)
             = synth_calls hw + 1)"
proof (rule conjI; rule impI)
  assume a: "listen_with_push_to_talk (capture t) w = (Some u, w1)
               \<and> any_in pt_exit_words (py_lower u)"
  then have w1: "synth_calls w1 = synth_calls w"
    using pt_listen_synth_calls [of "capture t" w] by simp
  from a show "pt_run_conversation (t # ts) (p, w)
             = (True, ts, snd (generate_response (clock t) u p),
                pt_synthesize_response (synth t) (fst (generate_response (clock t) u p)) w1)
          \<and> synth_calls
               (pt_synthesize_response (synth t) (fst (generate_response (clock t) u p)) w1)
             = synth_calls w + 1"
    by (simp add: pt_synth_calls w1 split_beta)
next
  assume b: "listen_for_speech (heard vt) hw = Inr (Some v, hw1)
               \<and> any_in vc_exit_words (py_lower v)"
  then have hw1: "synth_calls hw1 = synth_calls hw"
    using vc_listen_synth_calls [of "heard vt" hw "Some v" hw1] by simp
  from b show "vc_run_conversation (vt # vts) (h, hw)
             = (ExitPhrase, vts, h, vc_synthesize_response (vc_synth vt) vc_farewell hw1)
          \<and> synth_calls (vc_synthesize_response (vc_synth vt) vc_farewell hw1)
             = synth_calls hw + 1"
    by (simp add: vc_synth_calls hw1)
qed

theorem exit_phrase_one_synthesis_then_stop_witness:
  "listen_with_push_to_talk
       \<lparr>wait_raises = False,
        chunks = [\<lparr>raw_data = [0, 1], sample_rate = 16000, sample_width = 2\<rparr>],
        process = (\<lambda>a. Some ''Okay, goodbye'')\<rparr> empty_world
     = (Some ''Okay, goodbye'',
        print ''Processing recorded speech...''
          (print ''Hold SPACE to talk, release to stop...'' empty_world))
   \<and> any_in pt_exit_words (py_lower ''Okay, goodbye'')
   \<and> pt_run_conversation
         [\<lparr>capture = \<lparr>wait_raises = False,
              chunks = [\<lparr>raw_data = [0, 1], sample_rate = 16000, sample_width = 2\<rparr>],
              process = (\<lambda>a. Some ''Okay, goodbye'')\<rparr>,
            clock = ''09:00 AM'', synth = sample_env\<rparr>,
          \<lparr>capture = \<lparr>wait_raises = False, chunks = [], process = (\<lambda>a. None)\<rparr>,
            clock = ''09:01 AM'', synth = sample_env\<rparr>]
         (fresh_profile, empty_world)
       = (True,
          [\<lparr>capture = \<lparr>wait_raises = False, chunks = [], process = (\<lambda>a. None)\<rparr>,
            clock = ''09:01 AM'', synth = sample_env\<rparr>],
          snd (generate_response ''09:00 AM'' ''Okay, goodbye'' fresh_profile),
          pt_synthesize_response sample_env
            (fst (generate_response ''09:00 AM'' ''Okay, goodbye'' fresh_profile))
            (print ''Processing recorded speech...''
              (print ''Hold SPACE to talk, release to stop...'' empty_world)))
   \<and> fst (generate_response ''09:00 AM'' ''Okay, goodbye'' fresh_profile)
       = ''Goodbye! Thanks for the conversation!''
   \<and> listen_for_speech (Recognized ''Please stop'') empty_world
       = Inr (Some ''Please stop'',
              print ''You said: Please stop''
                (print ''Processing speech...''
                  (print ''Listening... (speak within 5 seconds)'' empty_world)))
   \<and> any_in vc_exit_words (py_lower ''Please stop'')
   \<and> vc_run_conversation
         [\<lparr>heard = Recognized ''Please stop'', vc_clock = ''09:00 AM'', vc_pick = 0,
           vc_synth = sample_env\<rparr>,
          \<lparr>heard = WaitTimeoutError, vc_clock = ''09:01 AM'', vc_pick = 0,
           vc_synth = sample_env\<rparr>]
         ([], empty_world)
       = (ExitPhrase,
          [\<lparr>heard = WaitTimeoutError, vc_clock = ''09:01 AM'', vc_pick = 0,
            vc_synth = sample_env\<rparr>], [],
          vc_synthesize_response sample_env vc_farewell
            (print ''You said: Please stop''
              (print ''Processing speech...''
                (print ''Listening... (speak within 5 seconds)'' empty_world))))"
proof -
  let ?cap = "\<lparr>wait_raises = False,
        chunks = [\<lparr>raw_data = [0, 1], sample_rate = 16000, sample_width = 2\<rparr>],
        process = (\<lambda>a. Some ''Okay, goodbye'')\<rparr>"
  let ?t = "\<lparr>capture = ?cap, clock = ''09:00 AM'', synth = sample_env\<rparr>"
  let ?t' = "\<lparr>capture = \<lparr>wait_raises = False, chunks = [], process = (\<lambda>a. None)\<rparr>,
            clock = ''09:01 AM'', synth = sample_env\<rparr>"
  let ?w1 = "print ''Processing recorded speech...''
          (print ''Hold SPACE to talk, release to stop...'' empty_world)"
  let ?vt = "\<lparr>heard = Recognized ''Please stop'', vc_clock = ''09:00 AM'', vc_pick = 0,
            vc_synth = sample_env\<rparr>"
  let ?vt' = "\<lparr>heard = WaitTimeoutError, vc_clock = ''09:01 AM'', vc_pick = 0,
            vc_synth = sample_env\<rparr>"
  let ?hw1 = "print ''You said: Please stop''
                (print ''Processing speech...''
                  (print ''Listening... (speak within 5 seconds)'' empty_world))"
  have l: "listen_with_push_to_talk (capture ?t) empty_world = (Some ''Okay, goodbye'', ?w1)"
    by (simp add: listen_with_push_to_talk_def Let_def)
  have e: "any_in pt_exit_words (py_lower ''Okay, goodbye'')"
    by (simp add: pt_exit_words_def py_lower_def lower_char_def startswith_def)
  have g: "fst (generate_response ''09:00 AM'' ''Okay, goodbye'' fresh_profile)
       = ''Goodbye! Thanks for the conversation!''"
    by (simp add: generate_response_def select_reply_def update_name_def fresh_profile_def
        intro_cues_def py_lower_def lower_char_def startswith_def Let_def)
  have lv: "listen_for_speech (heard ?vt) empty_world = Inr (Some ''Please stop'', ?hw1)"
    by (simp add: listen_for_speech_def Let_def)
  have ev: "any_in vc_exit_words (py_lower ''Please stop'')"
    by (simp add: vc_exit_words_def py_lower_def lower_char_def startswith_def)
  note inst = exit_phrase_one_synthesis_then_stop
    [of ?t empty_world "''Okay, goodbye''" ?w1 "[?t']" fresh_profile ?vt empty_world
        "''Please stop''" ?hw1 "[?vt']" "[]"]
  from inst l e have pt: "pt_run_conversation (?t # [?t']) (fresh_profile, empty_world)
        = (True, [?t'], snd (generate_response (clock ?t) ''Okay, goodbye'' fresh_profile),
           pt_synthesize_response (synth ?t)
             (fst (generate_response (clock ?t) ''Okay, goodbye'' fresh_profile)) ?w1)"
    by blast
  from inst lv ev have vc: "vc_run_conversation (?vt # [?vt']) ([], empty_world)
        = (ExitPhrase, [?vt'], [], vc_synthesize_response (vc_synth ?vt) vc_farewell ?hw1)"
    by blast
  from l have l': "listen_with_push_to_talk ?cap empty_world = (Some ''Okay, goodbye'', ?w1)"
    by simp
  from lv have lv': "listen_for_speech (Recognized ''Please stop'') empty_world
       = Inr (Some ''Please stop'', ?hw1)"
    by simp
  from pt have pt': "pt_run_conversation [?t, ?t'] (fresh_profile, empty_world)
        = (True, [?t'], snd (generate_response ''09:00 AM'' ''Okay, goodbye'' fresh_profile),
           pt_synthesize_response sample_env
             (fst (generate_response ''09:00 AM'' ''Okay, goodbye'' fresh_profile)) ?w1)"
    by (simp only: pt_turn.simps)
  from vc have vc': "vc_run_conversation [?vt, ?vt'] ([], empty_world)
        = (ExitPhrase, [?vt'], [], vc_synthesize_response sample_env vc_farewell ?hw1)"
    by (simp only: vc_turn.simps)
  from l' e pt' g lv' ev vc' show ?thesis
    by (intro conjI)
qed

subsection \<open>Signals and cleanup\<close>

lemma cleanup_runs_print:
  "cleanup_runs (ce_print msg s)
     = cleanup_runs s + (if msg = ''Cleaning up resources...'' then 1 else 0)"
  by (simp add: cleanup_runs_def ce_print_def print_def)

lemma cleanup_runs_upd [simp]:
  "cleanup_runs (s\<lparr>temp_dir := d\<rparr>) = cleanup_runs s"
  "cleanup_runs (s\<lparr>running := b\<rparr>) = cleanup_runs s"
  by (simp_all add: cleanup_runs_def)

lemma cleanup_runs_cleanup: "cleanup_runs (cleanup ce s) = Suc (cleanup_runs s)"
  by (simp add: cleanup_def Let_def cleanup_runs_print)

lemma running_print [simp]: "running (ce_print msg s) = running s"
  by (simp add: ce_print_def)

lemma running_cleanup [simp]: "running (cleanup ce s) = running s"
  by (simp add: cleanup_def Let_def)

text \<open>
  Claim C7, as stated, fails: after one \<^verbatim>\<open>SIGINT\<close> delivered during the capture, \<^verbatim>\<open>cleanup\<close>
  has been entered twice, once from the handler and once from the \<^verbatim>\<open>finally\<close> block of
  \<^verbatim>\<open>run_conversation\<close>, through which the handler's \<^verbatim>\<open>SystemExit\<close> passes.
\<close>

theorem cleanup_runs_twice_on_signal:
  "cleanup_runs \<lparr>running = True, ce_history = [],
       temp_dir = [''temp_response_17.wav'', ''notes.txt''], wld = empty_world\<rparr> = 0
   \<and> cleanup_runs (snd (ce_run_conversation sample_cleanup_env
       [\<lparr>event = SignalMidCapture SIGINT, handler_env = sample_cleanup_env,
         ce_timestamp = ''17'', ce_synth = sample_env\<rparr>]
       \<lparr>running = True, ce_history = [],
        temp_dir = [''temp_response_17.wav'', ''notes.txt''], wld = empty_world\<rparr>)) = 2"
  by (simp add: ce_run_conversation_def signal_handler_def ce_finally_def Let_def
      cleanup_runs_print cleanup_runs_cleanup)
     (simp add: cleanup_runs_def empty_world_def)

text \<open>
  Claim C7, amended. When an interrupt or terminate signal is delivered while the loop is
  capturing, the handler sets the running flag to false and runs \<^verbatim>\<open>cleanup\<close>; the
  \<^verbatim>\<open>SystemExit(0)\<close> it raises passes through the \<^verbatim>\<open>finally\<close> block of \<^verbatim>\<open>run_conversation\<close>,
  which runs \<^verbatim>\<open>cleanup\<close> a second time, and the process exits with status 0. So \<^verbatim>\<open>cleanup\<close>
  is entered exactly twice. Running it twice is harmless for the temporary directory: a
  second run in the same surroundings leaves the listing as the first run left it.
\<close>

theorem signal_exits_zero_after_cleanup:
  "running s \<Longrightarrow> event t = SignalMidCapture sg \<Longrightarrow>
   fst (ce_run_conversation fe (t # ts) s) = Some 0
   \<and> \<not> running (snd (ce_run_conversation fe (t # ts) s))
   \<and> cleanup_runs (snd (ce_run_conversation fe (t # ts) s)) = cleanup_runs s + 2
   \<and> temp_dir (cleanup ce (cleanup ce s)) = temp_dir (cleanup ce s)"
  by (simp add: ce_run_conversation_def signal_handler_def ce_finally_def Let_def
      cleanup_runs_print cleanup_runs_cleanup)
     (simp add: cleanup_def ce_print_def Let_def)

theorem signal_exits_zero_after_cleanup_witness:
  "running \<lparr>running = True, ce_history = [],
       temp_dir = [''temp_response_17.wav'', ''notes.txt''], wld = empty_world\<rparr>
   \<and> event \<lparr>event = SignalMidCapture SIGTERM, handler_env = sample_cleanup_env,
         ce_timestamp = ''17'', ce_synth = sample_env\<rparr> = SignalMidCapture SIGTERM
   \<and> fst (ce_run_conversation sample_cleanup_env
       [\<lparr>event = SignalMidCapture SIGTERM, handler_env = sample_cleanup_env,
         ce_timestamp = ''17'', ce_synth = sample_env\<rparr>]
       \<lparr>running = True, ce_history = [],
        temp_dir = [''temp_response_17.wav'', ''notes.txt''], wld = empty_world\<rparr>) = Some 0
   \<and> temp_dir (cleanup sample_cleanup_env
       \<lparr>running = True, ce_history = [],
        temp_dir = [''temp_response_17.wav'', ''notes.txt''], wld = empty_world\<rparr>)
     = [''notes.txt'']"
proof -
  let ?s = "\<lparr>running = True, ce_history = [],
       temp_dir = [''temp_response_17.wav'', ''notes.txt''], wld = empty_world\<rparr>"
  let ?t = "\<lparr>event = SignalMidCapture SIGTERM, handler_env = sample_cleanup_env,
         ce_timestamp = ''17'', ce_synth = sample_env\<rparr>"
  have r: "running ?s" and e: "event ?t = SignalMidCapture SIGTERM"
    by simp_all
  have d: "temp_dir (cleanup sample_cleanup_env ?s) = [''notes.txt'']"
    by (simp add: cleanup_def ce_print_def Let_def sample_cleanup_env_def startswith_def
        endswith_def)
  from signal_exits_zero_after_cleanup [OF r e, of sample_cleanup_env "[]" sample_cleanup_env]
  have "fst (ce_run_conversation sample_cleanup_env [?t] ?s) = Some 0"
    by blast
  with r e d show ?thesis
    by (intro conjI)
qed

end
